theory Spec2Isabelle
  imports Complex_Main "HOL-Library.Log_Nat"
begin

section \<open>Application form manager: data model\<close>

text \<open>
  The component \<^verbatim>\<open>ApplicationFormManager\<close> of
  \<^verbatim>\<open>src/app/components/ApplicationFormManager.tsx\<close> is embedded as state-passing
  functions. JavaScript strings are modelled as \<^typ>\<open>string\<close>, byte counts as
  \<^typ>\<open>nat\<close>. Calls to \<^verbatim>\<open>console.log\<close> and \<^verbatim>\<open>console.error\<close> change
  neither the component state nor the storage backend and are left out.
\<close>

text \<open>The browser's \<^verbatim>\<open>File\<close> object, as far as the component reads it.\<close>

record File =
  file_name :: string
  file_type :: string
  file_size :: nat

text \<open>
  An entry of the storage listing. \<open>fo_metadata_size\<close> is \<^verbatim>\<open>file.metadata?.size\<close>:
  \<open>None\<close> when the metadata or its size is absent.
\<close>

record FileObject =
  fo_name :: string
  fo_metadata_size :: "nat option"
  fo_created_at :: "string option"

text \<open>The interface \<^verbatim>\<open>UploadedFile\<close> (lines 11-17).\<close>

record UploadedFile =
  uf_name :: string
  uf_path :: string
  uf_size :: nat
  uf_uploadedAt :: string
  uf_url :: "string option"

text \<open>
  The \<^verbatim>\<open>useState\<close> cells of the component (lines 20-24), and the value of the file
  input element, which \<^verbatim>\<open>handleFileUpload\<close> resets.
\<close>

record state =
  files :: "UploadedFile list"
  uploading :: bool
  loading :: bool
  error :: "string option"
  success :: "string option"
  input_value :: string

definition initial_state :: state where
  "initial_state =
     \<lparr>files = [], uploading = False, loading = True, error = None, success = None,
      input_value = []\<rparr>"

section \<open>The outside world\<close>

text \<open>
  An awaited call either throws (the promise rejects) or returns a response.
\<close>

datatype 'a outcome = Threw | Returned 'a

text \<open>
  The response \<^verbatim>\<open>{ data, error }\<close> of \<^verbatim>\<open>list\<close>; an error is represented by its
  \<^verbatim>\<open>message\<close>. The responses of \<^verbatim>\<open>upload\<close> and \<^verbatim>\<open>remove\<close> are read only for
  their error, and the response of \<^verbatim>\<open>createSignedUrl\<close> only for
  \<^verbatim>\<open>data?.signedUrl\<close>, so each of these is a \<^typ>\<open>string option\<close>.
\<close>

record list_response =
  list_data :: "FileObject list option"
  list_error :: "string option"

text \<open>Every request the component sends out, with all its arguments.\<close>

datatype call =
    ListCall string string nat nat
  | SignCall string string nat
  | UploadCall string string File string bool
  | RemoveCall string "string list"
  | DownloadCall string string

text \<open>
  The storage client, the \<^verbatim>\<open>confirm\<close> dialog, the clock and the browser's download
  are outside the repository. They are parameters of the model: operations on an
  arbitrary world state \<open>'w\<close>. The arguments are, in order: for \<open>storage_list\<close> the bucket,
  the folder, the limit and the offset; for \<open>storage_createSignedUrl\<close> the bucket, the
  path and the expiry in seconds; for \<open>storage_upload\<close> the bucket, the path, the file,
  \<^verbatim>\<open>cacheControl\<close> and \<^verbatim>\<open>upsert\<close>; for \<open>storage_remove\<close> the bucket and the
  paths; for \<open>browser_download\<close> the link's \<^verbatim>\<open>href\<close> and \<^verbatim>\<open>download\<close> attributes.
  \<open>now_iso\<close> is \<^verbatim>\<open>new Date().toISOString()\<close>.
\<close>

record 'w env =
  storage_list :: "string \<Rightarrow> string \<Rightarrow> nat \<Rightarrow> nat \<Rightarrow> 'w \<Rightarrow> list_response outcome \<times> 'w"
  storage_createSignedUrl :: "string \<Rightarrow> string \<Rightarrow> nat \<Rightarrow> 'w \<Rightarrow> string option outcome \<times> 'w"
  storage_upload :: "string \<Rightarrow> string \<Rightarrow> File \<Rightarrow> string \<Rightarrow> bool \<Rightarrow> 'w \<Rightarrow> string option outcome \<times> 'w"
  storage_remove :: "string \<Rightarrow> string list \<Rightarrow> 'w \<Rightarrow> string option outcome \<times> 'w"
  confirm :: "string \<Rightarrow> 'w \<Rightarrow> bool"
  now_iso :: "'w \<Rightarrow> string"
  browser_download :: "string \<Rightarrow> string \<Rightarrow> 'w \<Rightarrow> unit outcome \<times> 'w"

text \<open>The world state together with the log of the requests sent so far.\<close>

type_synonym 'w world = "'w \<times> call list"

definition bucket :: string where
  "bucket = ''application-forms''"

definition do_list :: "'w env \<Rightarrow> string \<Rightarrow> nat \<Rightarrow> nat \<Rightarrow> 'w world \<Rightarrow> list_response outcome \<times> 'w world" where
  "do_list e folder limit_n offset_n W =
     (case storage_list e bucket folder limit_n offset_n (fst W) of
        (r, w') \<Rightarrow> (r, (w', snd W @ [ListCall bucket folder limit_n offset_n])))"

definition do_sign :: "'w env \<Rightarrow> string \<Rightarrow> nat \<Rightarrow> 'w world \<Rightarrow> string option outcome \<times> 'w world" where
  "do_sign e p expiry W =
     (case storage_createSignedUrl e bucket p expiry (fst W) of
        (r, w') \<Rightarrow> (r, (w', snd W @ [SignCall bucket p expiry])))"

definition do_upload :: "'w env \<Rightarrow> string \<Rightarrow> File \<Rightarrow> string \<Rightarrow> bool \<Rightarrow> 'w world \<Rightarrow> string option outcome \<times> 'w world" where
  "do_upload e p f cc ups W =
     (case storage_upload e bucket p f cc ups (fst W) of
        (r, w') \<Rightarrow> (r, (w', snd W @ [UploadCall bucket p f cc ups])))"

definition do_remove :: "'w env \<Rightarrow> string list \<Rightarrow> 'w world \<Rightarrow> string option outcome \<times> 'w world" where
  "do_remove e ps W =
     (case storage_remove e bucket ps (fst W) of
        (r, w') \<Rightarrow> (r, (w', snd W @ [RemoveCall bucket ps])))"

definition do_download :: "'w env \<Rightarrow> string \<Rightarrow> string \<Rightarrow> 'w world \<Rightarrow> unit outcome \<times> 'w world" where
  "do_download e url n W =
     (case browser_download e url n (fst W) of
        (r, w') \<Rightarrow> (r, (w', snd W @ [DownloadCall url n])))"

section \<open>loadFiles (lines 32-79)\<close>

text \<open>
  \<^verbatim>\<open>fileList.map(async (file) => ...)\<close> starts the body for every entry in order, and
  each body runs up to its \<^verbatim>\<open>await\<close>: all signed-URL requests are sent, in the order of
  the entries, with expiry 3600. \<^verbatim>\<open>Promise.all\<close> rejects when one of them rejects.
\<close>

fun sign_all :: "'w env \<Rightarrow> string \<Rightarrow> FileObject list \<Rightarrow> 'w world \<Rightarrow> string option outcome list \<times> 'w world" where
  "sign_all e clientId [] W = ([], W)"
| "sign_all e clientId (file # rest) W =
     (case do_sign e (clientId @ ''/'' @ fo_name file) 3600 W of
        (r, W1) \<Rightarrow> (case sign_all e clientId rest W1 of (rs, W2) \<Rightarrow> (r # rs, W2)))"

text \<open>
  The object built at lines 61-67 from an entry, its signed-URL response and the clock.
  \<^verbatim>\<open>x || y\<close> takes \<open>y\<close> when \<open>x\<close> is absent, \<open>0\<close> or the empty string.
\<close>

definition uploaded_file :: "string \<Rightarrow> string \<Rightarrow> FileObject \<Rightarrow> string option outcome \<Rightarrow> UploadedFile" where
  "uploaded_file clientId now file r =
     \<lparr>uf_name = fo_name file,
      uf_path = clientId @ ''/'' @ fo_name file,
      uf_size = (case fo_metadata_size file of None \<Rightarrow> 0 | Some n \<Rightarrow> n),
      uf_uploadedAt =
        (case fo_created_at file of
           None \<Rightarrow> now
         | Some t \<Rightarrow> if t = [] then now else t),
      uf_url = (case r of Threw \<Rightarrow> None | Returned u \<Rightarrow> u)\<rparr>"

definition loadFiles :: "'w env \<Rightarrow> string \<Rightarrow> state \<times> 'w world \<Rightarrow> state \<times> 'w world" where
  "loadFiles e clientId sW =
     (let s1 = (fst sW)\<lparr>loading := True, error := None\<rparr> in
      case do_list e clientId 100 0 (snd sW) of
        (Threw, W1) \<Rightarrow>
          (s1\<lparr>error := Some ''Failed to load application forms'', loading := False\<rparr>, W1)
      | (Returned resp, W1) \<Rightarrow>
          (case list_error resp of
             Some msg \<Rightarrow>
               (s1\<lparr>error := Some (''Failed to load files: '' @ msg), loading := False\<rparr>, W1)
           | None \<Rightarrow>
               (case list_data resp of
                  None \<Rightarrow> (s1\<lparr>loading := False\<rparr>, W1)
                | Some fileList \<Rightarrow>
                    (case sign_all e clientId fileList W1 of
                       (rs, W2) \<Rightarrow>
                         if Threw \<in> set rs
                         then (s1\<lparr>error := Some ''Failed to load application forms'',
                                   loading := False\<rparr>, W2)
                         else (s1\<lparr>files := map2 (uploaded_file clientId (now_iso e (fst W2)))
                                              fileList rs,
                                   loading := False\<rparr>, W2)))))"

section \<open>handleFileUpload (lines 81-156)\<close>

definition allowedTypes :: "string list" where
  "allowedTypes =
     [''application/pdf'',
      ''application/msword'',
      ''application/vnd.openxmlformats-officedocument.wordprocessingml.document'',
      ''application/vnd.ms-excel'',
      ''application/vnd.openxmlformats-officedocument.spreadsheetml.sheet'',
      ''text/plain'',
      ''image/jpeg'',
      ''image/png'',
      ''image/gif'']"

text \<open>\<^verbatim>\<open>s.split(sep)\<close> for a one-character separator: never the empty array.\<close>

fun js_split :: "char \<Rightarrow> string \<Rightarrow> string list" where
  "js_split sep [] = [[]]"
| "js_split sep (c # cs) =
     (if c = sep then [] # js_split sep cs
      else (case js_split sep cs of
              [] \<Rightarrow> [[c]]
            | x # xs \<Rightarrow> (c # x) # xs))"

text \<open>\<^verbatim>\<open>.replace(/[:.]/g, '-')\<close>\<close>

definition replace_colon_dot :: "string \<Rightarrow> string" where
  "replace_colon_dot s = map (\<lambda>c. if c = CHR '':'' \<or> c = CHR ''.'' then CHR ''-'' else c) s"

text \<open>
  Lines 115-118. \<^verbatim>\<open>split('.').pop()\<close> is the last piece and \<^verbatim>\<open>split('.')[0]\<close> the
  first; the array is never empty, so neither is \<^verbatim>\<open>undefined\<close>.
\<close>

definition fileExtension :: "string \<Rightarrow> string" where
  "fileExtension n = last (js_split CHR ''.'' n)"

definition fileName :: "string \<Rightarrow> string \<Rightarrow> string" where
  "fileName isoString n =
     hd (js_split CHR ''.'' n) @ ''_'' @ replace_colon_dot isoString @ ''.'' @ fileExtension n"

definition filePath :: "string \<Rightarrow> string \<Rightarrow> string \<Rightarrow> string" where
  "filePath clientId isoString n = clientId @ ''/'' @ fileName isoString n"

definition quoted :: "string \<Rightarrow> string" where
  "quoted s = [CHR 0x22] @ s @ [CHR 0x22]"

definition type_message :: string where
  "type_message =
     ''File type not supported. Please upload PDF, Word, Excel, text, or image files.''"

definition size_message :: string where
  "size_message = ''File size must be less than 50MB''"

text \<open>
  The argument is \<^verbatim>\<open>event.target.files?.[0]\<close>. Every path through the \<^verbatim>\<open>try\<close> block
  ends in the \<^verbatim>\<open>finally\<close> clause, which resets \<open>uploading\<close>.
\<close>

definition handleFileUpload :: "'w env \<Rightarrow> string \<Rightarrow> File option \<Rightarrow> state \<times> 'w world \<Rightarrow> state \<times> 'w world" where
  "handleFileUpload e clientId fopt sW =
     (case fopt of
        None \<Rightarrow> sW
      | Some file \<Rightarrow>
          (let s1 = (fst sW)\<lparr>uploading := True, error := None, success := None\<rparr> in
           if file_type file \<notin> set allowedTypes
           then (s1\<lparr>error := Some type_message, uploading := False\<rparr>, snd sW)
           else if file_size file > 50 * 1024 * 1024
           then (s1\<lparr>error := Some size_message, uploading := False\<rparr>, snd sW)
           else
             (case do_upload e (filePath clientId (now_iso e (fst (snd sW))) (file_name file))
                     file ''3600'' False (snd sW) of
                (Threw, W1) \<Rightarrow>
                  (s1\<lparr>error := Some ''An unexpected error occurred during upload'',
                      uploading := False\<rparr>, W1)
              | (Returned (Some msg), W1) \<Rightarrow>
                  (s1\<lparr>error := Some (''Upload failed: '' @ msg), uploading := False\<rparr>, W1)
              | (Returned None, W1) \<Rightarrow>
                  (case loadFiles e clientId
                          (s1\<lparr>success := Some (''File '' @ quoted (file_name file)
                                                 @ '' uploaded successfully!'')\<rparr>, W1) of
                     (s2, W2) \<Rightarrow> (s2\<lparr>input_value := [], uploading := False\<rparr>, W2)))))"

section \<open>handleFileDelete (lines 158-183)\<close>

definition confirm_prompt :: "string \<Rightarrow> string" where
  "confirm_prompt n = ''Are you sure you want to delete '' @ quoted n @ ''?''"

definition handleFileDelete :: "'w env \<Rightarrow> string \<Rightarrow> string \<Rightarrow> string \<Rightarrow> state \<times> 'w world \<Rightarrow> state \<times> 'w world" where
  "handleFileDelete e clientId path n sW =
     (if \<not> confirm e (confirm_prompt n) (fst (snd sW)) then sW
      else
        (let s1 = (fst sW)\<lparr>error := None, success := None\<rparr> in
         case do_remove e [path] (snd sW) of
           (Threw, W1) \<Rightarrow> (s1\<lparr>error := Some ''Failed to delete file''\<rparr>, W1)
         | (Returned (Some msg), W1) \<Rightarrow>
             (s1\<lparr>error := Some (''Failed to delete file: '' @ msg)\<rparr>, W1)
         | (Returned None, W1) \<Rightarrow>
             loadFiles e clientId
               (s1\<lparr>success := Some (''File '' @ quoted n @ '' deleted successfully!'')\<rparr>, W1)))"

section \<open>handleFileDownload (lines 185-203)\<close>

definition handleFileDownload :: "'w env \<Rightarrow> string \<Rightarrow> string \<Rightarrow> state \<times> 'w world \<Rightarrow> state \<times> 'w world" where
  "handleFileDownload e url n sW =
     (if url = [] then ((fst sW)\<lparr>error := Some ''Download URL not available''\<rparr>, snd sW)
      else
        (case do_download e url n (snd sW) of
           (Threw, W1) \<Rightarrow> ((fst sW)\<lparr>error := Some ''Failed to download file''\<rparr>, W1)
         | (Returned u, W1) \<Rightarrow> (fst sW, W1)))"

section \<open>Test doubles\<close>

text \<open>
  An outside world without state that gives every request of a kind the same answer:
  the list response, the signed-URL response, the upload response, the remove response,
  the answer of the confirm dialog and the clock reading.
\<close>

definition const_env :: "list_response outcome \<Rightarrow> string option outcome \<Rightarrow> string option outcome \<Rightarrow> string option outcome \<Rightarrow> bool \<Rightarrow> string \<Rightarrow> unit env" where
  "const_env lr sr ur rr c t =
     \<lparr>storage_list = (\<lambda>b folder l off w. (lr, w)),
      storage_createSignedUrl = (\<lambda>b p x w. (sr, w)),
      storage_upload = (\<lambda>b p f cc ups w. (ur, w)),
      storage_remove = (\<lambda>b ps w. (rr, w)),
      confirm = (\<lambda>p w. c),
      now_iso = (\<lambda>w. t),
      browser_download = (\<lambda>u n w. (Returned (), w))\<rparr>"

text \<open>
  A listing entry without metadata and creation time, a component state that already
  shows one file, and a world that lists the bare entry and signs no URL.
\<close>

definition bare_entry :: FileObject where
  "bare_entry = \<lparr>fo_name = ''a.pdf'', fo_metadata_size = None, fo_created_at = None\<rparr>"

definition old_state :: state where
  "old_state =
     initial_state\<lparr>loading := False,
       files := [\<lparr>uf_name = ''old.pdf'', uf_path = ''c1/old.pdf'', uf_size = 7,
                  uf_uploadedAt = ''2024-12-31T00:00:00.000Z'', uf_url = None\<rparr>]\<rparr>"


text \<open>
  A world in which every request succeeds, the listing has no data, and the clock reads
  2025-01-01T00:00:00.000Z.
\<close>

definition uploaded_env :: "unit env" where
  "uploaded_env =
     const_env (Returned \<lparr>list_data = None, list_error = None\<rparr>) (Returned None)
       (Returned None) (Returned None) True ''2025-01-01T00:00:00.000Z''"

section \<open>The lifetime of the component\<close>

text \<open>
  What happens to a mounted component: the effect of lines 28-30 runs \<^verbatim>\<open>loadFiles\<close>, the
  user picks a file (or cancels the file dialog), asks for a deletion, or asks for a
  download.
\<close>

datatype event =
    Load
  | Upload "File option"
  | Delete string string
  | Download string string

fun step :: "'w env \<Rightarrow> string \<Rightarrow> event \<Rightarrow> state \<times> 'w world \<Rightarrow> state \<times> 'w world" where
  "step e clientId Load sW = loadFiles e clientId sW"
| "step e clientId (Upload fopt) sW = handleFileUpload e clientId fopt sW"
| "step e clientId (Delete path n) sW = handleFileDelete e clientId path n sW"
| "step e clientId (Download url n) sW = handleFileDownload e url n sW"

definition run :: "'w env \<Rightarrow> string \<Rightarrow> event list \<Rightarrow> state \<times> 'w world \<Rightarrow> state \<times> 'w world" where
  "run e clientId evs sW = fold (step e clientId) evs sW"




definition report_pdf :: File where
  "report_pdf = \<lparr>file_name = ''report.pdf'', file_type = ''application/pdf'', file_size = 2097152\<rparr>"

section \<open>Uploads and existing objects\<close>

text \<open>A request that cannot replace an object: every request but an upload with \<^verbatim>\<open>upsert\<close>.\<close>

fun overwrite_disallowed :: "call \<Rightarrow> bool" where
  "overwrite_disallowed (UploadCall b p f cc ups) = (\<not> ups)"
| "overwrite_disallowed c = True"

text \<open>The objects of the storage backend, by bucket and path.\<close>

type_synonym store = "string \<times> string \<Rightarrow> File option"

text \<open>
  Modelled from the spec: the \<^verbatim>\<open>upload\<close> operation of the storage backend, a hosted
  service outside the repository. The specification says of it that overwriting an
  existing object with the same name is disallowed as a hard constraint passed to the
  backend: with \<^verbatim>\<open>upsert\<close> false an upload to a path that holds an object fails with an
  error and leaves the object; otherwise the object is stored.
\<close>

definition store_upload :: "string \<Rightarrow> string \<Rightarrow> File \<Rightarrow> string \<Rightarrow> bool \<Rightarrow> store \<Rightarrow> string option outcome \<times> store" where
  "store_upload b p f cc ups st =
     (if st (b, p) \<noteq> None \<and> \<not> ups
      then (Returned (Some ''The resource already exists''), st)
      else (Returned None, st((b, p) \<mapsto> f)))"

text \<open>
  A world whose state is the object store, with that \<^verbatim>\<open>upload\<close>, and a store that
  already holds an object at the path derived for \<^verbatim>\<open>report.pdf\<close>.
\<close>

definition store_env :: "store env" where
  "store_env =
     \<lparr>storage_list = (\<lambda>b folder l off st. (Returned \<lparr>list_data = None, list_error = None\<rparr>, st)),
      storage_createSignedUrl = (\<lambda>b p x st. (Returned None, st)),
      storage_upload = store_upload,
      storage_remove = (\<lambda>b ps st. (Returned None, st)),
      confirm = (\<lambda>p st. True),
      now_iso = (\<lambda>st. ''2025-01-01T00:00:00.000Z''),
      browser_download = (\<lambda>u n st. (Returned (), st))\<rparr>"

definition occupied_store :: store where
  "occupied_store =
     (\<lambda>k. None)((''application-forms'', ''c1/report_2025-01-01T00-00-00-000Z.pdf'') \<mapsto>
        \<lparr>file_name = ''report.pdf'', file_type = ''application/pdf'', file_size = 5\<rparr>)"

(*DEFS_END*)

section \<open>The requests of loadFiles\<close>

lemma sign_all_log:
  "snd (snd (sign_all e clientId fl (w, tr))) =
     tr @ map (\<lambda>f. SignCall bucket (clientId @ ''/'' @ fo_name f) 3600) fl"
  by (induction fl arbitrary: w tr) (simp_all add: do_sign_def split_beta)


text \<open>
  C6. The list operation sends one list request, for the client's folder of the bucket
  \<^verbatim>\<open>application-forms\<close> with limit 100 and offset 0, and then, when the listing
  returns entries without an error, one signed-URL request per entry, in order, for
  the path \<^verbatim>\<open>clientId/name\<close> with an expiry of 3600 seconds. It sends nothing else.
\<close>

theorem loadFiles_requests:
  "snd (snd (loadFiles e clientId (s, (w, tr)))) =
     tr @ ListCall ''application-forms'' clientId 100 0 #
       (case fst (storage_list e ''application-forms'' clientId 100 0 w) of
          Threw \<Rightarrow> []
        | Returned r \<Rightarrow>
            (case list_error r of
               Some msg \<Rightarrow> []
             | None \<Rightarrow>
                 (case list_data r of
                    None \<Rightarrow> []
                  | Some fl \<Rightarrow>
                      map (\<lambda>f. SignCall ''application-forms'' (clientId @ ''/'' @ fo_name f) 3600)
                        fl)))"
  by (simp add: loadFiles_def do_list_def Let_def split_beta sign_all_log
        bucket_def[symmetric] split: outcome.splits option.splits)

section \<open>Delete without confirmation\<close>

text \<open>
  C5. When the confirm dialog is answered with no, \<^verbatim>\<open>handleFileDelete\<close> returns the
  component state, the world state and the request log as they were: no remove request is
  sent, the backend is untouched, and the file list and both messages keep their values.
\<close>

theorem handleFileDelete_unconfirmed:
  "\<not> confirm e (confirm_prompt n) (fst (snd sW)) \<Longrightarrow>
   handleFileDelete e clientId path n sW = sW"
  by (simp add: handleFileDelete_def)

theorem handleFileDelete_unconfirmed_witness:
  "\<not> confirm (const_env Threw Threw Threw Threw False ''t'') (confirm_prompt ''a.pdf'')
        (fst (snd (initial_state, ((), [] :: call list)))) \<and>
   handleFileDelete (const_env Threw Threw Threw Threw False ''t'') ''c1'' ''c1/a.pdf''
        ''a.pdf'' (initial_state, ((), [])) = (initial_state, ((), []))"
  using handleFileDelete_unconfirmed
          [of "const_env Threw Threw Threw Threw False ''t''" "''a.pdf''"
              "(initial_state, ((), []))" "''c1''" "''c1/a.pdf''"]
  by (simp add: const_env_def)

section \<open>Upload validation\<close>

lemma loadFiles_log_ext:
  "\<exists>rest. snd (snd (loadFiles e clientId sW)) = snd (snd sW) @ rest \<and>
          (\<forall>c \<in> set rest. \<forall>b p f cc ups. c \<noteq> UploadCall b p f cc ups)"
  by (cases sW) (auto simp add: loadFiles_def do_list_def Let_def split_beta sign_all_log
        split: outcome.splits option.splits)

lemma upload_log_ext:
  assumes a: "file_type f \<in> set allowedTypes" "file_size f \<le> 52428800"
  shows "\<exists>rest. snd (snd (handleFileUpload e clientId (Some f) (s, W))) =
     snd W @ UploadCall bucket (filePath clientId (now_iso e (fst W)) (file_name f)) f ''3600'' False # rest
     \<and> (\<forall>c \<in> set rest. \<forall>b p f cc ups. c \<noteq> UploadCall b p f cc ups)"
proof -
  let ?p = "filePath clientId (now_iso e (fst W)) (file_name f)"
  let ?c = "UploadCall bucket ?p f ''3600'' False"
  obtain r w' where u: "storage_upload e bucket ?p f ''3600'' False (fst W) = (r, w')"
    by (cases "storage_upload e bucket ?p f ''3600'' False (fst W)")
  have up: "do_upload e ?p f ''3600'' False W = (r, w', snd W @ [?c])"
    by (simp add: do_upload_def u)
  show ?thesis
  proof (cases r)
    case Threw
    with a up show ?thesis
      by (simp add: handleFileUpload_def Let_def)
  next
    case (Returned x)
    show ?thesis
    proof (cases x)
      case (Some msg)
      with a up Returned show ?thesis
        by (simp add: handleFileUpload_def Let_def)
    next
      case None
      from loadFiles_log_ext[of e clientId "(s\<lparr>uploading := True, error := None,
               success := Some (''File '' @ quoted (file_name f) @ '' uploaded successfully!'')\<rparr>,
             (w', snd W @ [?c]))"]
      obtain rest where
        "snd (snd (loadFiles e clientId
            (s\<lparr>uploading := True, error := None,
               success := Some (''File '' @ quoted (file_name f) @ '' uploaded successfully!'')\<rparr>,
             (w', snd W @ [?c])))) = (snd W @ [?c]) @ rest"
        "\<forall>c \<in> set rest. \<forall>b p f cc ups. c \<noteq> UploadCall b p f cc ups"
        by auto
      with a up Returned None show ?thesis
        by (simp add: handleFileUpload_def Let_def split_beta)
    qed
  qed
qed

lemma upload_rejected:
  "file_type f \<notin> set allowedTypes \<or> 52428800 < file_size f \<Longrightarrow>
   handleFileUpload e clientId (Some f) (s, W) =
     (s\<lparr>uploading := False,
        error := Some (if file_type f \<notin> set allowedTypes then type_message else size_message),
        success := None\<rparr>, W)"
  by (auto simp: handleFileUpload_def Let_def)

text \<open>
  C2. A file whose MIME type is not one of the nine allowed types, or whose size exceeds
  52,428,800 bytes, makes \<^verbatim>\<open>handleFileUpload\<close> set the validation message and
  nothing else: the world state and the request log are returned unchanged, so no request
  reaches the storage backend. A file of an allowed type and of exactly 52,428,800 bytes
  passes validation: the upload request is sent.
\<close>

theorem upload_validation:
  "(file_type f \<notin> set allowedTypes \<or> 52428800 < file_size f \<longrightarrow>
      handleFileUpload e clientId (Some f) (s, W) =
        (s\<lparr>uploading := False,
           error := Some (if file_type f \<notin> set allowedTypes then type_message else size_message),
           success := None\<rparr>, W)) \<and>
   (file_type f \<in> set allowedTypes \<and> file_size f = 52428800 \<longrightarrow>
      (\<exists>p rest. snd (snd (handleFileUpload e clientId (Some f) (s, W))) =
         snd W @ UploadCall ''application-forms'' p f ''3600'' False # rest)) \<and>
   allowedTypes =
     [''application/pdf'', ''application/msword'',
      ''application/vnd.openxmlformats-officedocument.wordprocessingml.document'',
      ''application/vnd.ms-excel'',
      ''application/vnd.openxmlformats-officedocument.spreadsheetml.sheet'',
      ''text/plain'', ''image/jpeg'', ''image/png'', ''image/gif'']"
proof (intro conjI impI)
  assume "file_type f \<notin> set allowedTypes \<or> 52428800 < file_size f"
  then show "handleFileUpload e clientId (Some f) (s, W) =
        (s\<lparr>uploading := False,
           error := Some (if file_type f \<notin> set allowedTypes then type_message else size_message),
           success := None\<rparr>, W)"
    by (rule upload_rejected)
next
  assume "file_type f \<in> set allowedTypes \<and> file_size f = 52428800"
  then have "file_type f \<in> set allowedTypes" "file_size f \<le> 52428800"
    by simp_all
  from upload_log_ext[OF this, of e clientId s W]
  show "\<exists>p rest. snd (snd (handleFileUpload e clientId (Some f) (s, W))) =
         snd W @ UploadCall ''application-forms'' p f ''3600'' False # rest"
    unfolding bucket_def by blast
next
  show "allowedTypes =
     [''application/pdf'', ''application/msword'',
      ''application/vnd.openxmlformats-officedocument.wordprocessingml.document'',
      ''application/vnd.ms-excel'',
      ''application/vnd.openxmlformats-officedocument.spreadsheetml.sheet'',
      ''text/plain'', ''image/jpeg'', ''image/png'', ''image/gif'']"
    by (simp add: allowedTypes_def)
qed

theorem upload_validation_witness:
  "(file_type \<lparr>file_name = ''setup.exe'', file_type = ''application/x-msdownload'', file_size = 1000\<rparr>
       \<notin> set allowedTypes \<and>
    handleFileUpload (const_env Threw Threw Threw Threw True ''2025-01-01T00:00:00.000Z'') ''c1''
      (Some \<lparr>file_name = ''setup.exe'', file_type = ''application/x-msdownload'', file_size = 1000\<rparr>)
      (initial_state, ((), [])) =
    (initial_state\<lparr>uploading := False, error := Some type_message, success := None\<rparr>, ((), []))) \<and>
   (52428800 < file_size \<lparr>file_name = ''big.pdf'', file_type = ''application/pdf'', file_size = 52428801\<rparr> \<and>
    handleFileUpload (const_env Threw Threw Threw Threw True ''2025-01-01T00:00:00.000Z'') ''c1''
      (Some \<lparr>file_name = ''big.pdf'', file_type = ''application/pdf'', file_size = 52428801\<rparr>)
      (initial_state, ((), [])) =
    (initial_state\<lparr>uploading := False, error := Some size_message, success := None\<rparr>, ((), []))) \<and>
   (file_type \<lparr>file_name = ''max.pdf'', file_type = ''application/pdf'', file_size = 52428800\<rparr>
       \<in> set allowedTypes \<and>
    file_size \<lparr>file_name = ''max.pdf'', file_type = ''application/pdf'', file_size = 52428800\<rparr> = 52428800 \<and>
    (\<exists>p rest. snd (snd (handleFileUpload
        (const_env Threw Threw Threw Threw True ''2025-01-01T00:00:00.000Z'') ''c1''
        (Some \<lparr>file_name = ''max.pdf'', file_type = ''application/pdf'', file_size = 52428800\<rparr>)
        (initial_state, ((), [])))) =
      snd ((), []) @ UploadCall ''application-forms'' p
        \<lparr>file_name = ''max.pdf'', file_type = ''application/pdf'', file_size = 52428800\<rparr>
        ''3600'' False # rest))"
proof -
  let ?e = "const_env Threw Threw Threw Threw True ''2025-01-01T00:00:00.000Z''"
  let ?exe = "\<lparr>file_name = ''setup.exe'', file_type = ''application/x-msdownload'', file_size = 1000\<rparr>"
  let ?big = "\<lparr>file_name = ''big.pdf'', file_type = ''application/pdf'', file_size = 52428801\<rparr>"
  let ?max = "\<lparr>file_name = ''max.pdf'', file_type = ''application/pdf'', file_size = 52428800\<rparr>"
  have pdf: "''application/pdf'' \<in> set allowedTypes"
    by (simp add: allowedTypes_def)
  have h1: "file_type ?exe \<notin> set allowedTypes"
    by (simp add: allowedTypes_def)
  have h2: "52428800 < file_size ?big"
    by simp
  have h3: "file_type ?max \<in> set allowedTypes \<and> file_size ?max = 52428800"
    using pdf by simp
  have t2: "file_type ?big \<in> set allowedTypes"
    using pdf by simp
  note a = upload_validation [of ?exe ?e "''c1''" initial_state "((), [])"]
  note b = upload_validation [of ?big ?e "''c1''" initial_state "((), [])"]
  note c = upload_validation [of ?max ?e "''c1''" initial_state "((), [])"]
  have c1: "handleFileUpload ?e ''c1'' (Some ?exe) (initial_state, ((), [])) =
      (initial_state\<lparr>uploading := False, error := Some type_message, success := None\<rparr>, ((), []))"
    using a h1 by presburger
  have c2: "handleFileUpload ?e ''c1'' (Some ?big) (initial_state, ((), [])) =
      (initial_state\<lparr>uploading := False, error := Some size_message, success := None\<rparr>, ((), []))"
    using b h2 t2 by presburger
  have c3: "\<exists>p rest. snd (snd (handleFileUpload ?e ''c1'' (Some ?max) (initial_state, ((), [])))) =
      snd ((), []) @ UploadCall ''application-forms'' p ?max ''3600'' False # rest"
    using c h3 by blast
  from h1 h2 h3 c1 c2 c3 show ?thesis
    by blast
qed

section \<open>Outcomes of loadFiles\<close>

text \<open>
  C4. Whenever the list operation fails, a readable error message is set and the displayed
  file list is the one from before the call (the empty list right after mounting). The
  list operation fails when the list request throws, when it returns an error, or when
  the listing succeeds and one of the signed-URL requests throws.
\<close>

theorem loadFiles_failure:
  assumes "loadFiles e clientId (s, (w, tr)) = (s', W')"
  shows
    "(fst (storage_list e ''application-forms'' clientId 100 0 w) = Threw \<longrightarrow>
        error s' = Some ''Failed to load application forms'' \<and> files s' = files s) \<and>
     (\<forall>r msg. fst (storage_list e ''application-forms'' clientId 100 0 w) = Returned r \<and>
          list_error r = Some msg \<longrightarrow>
        error s' = Some (''Failed to load files: '' @ msg) \<and> files s' = files s) \<and>
     (\<forall>r w1 fl. storage_list e ''application-forms'' clientId 100 0 w = (Returned r, w1) \<and>
          list_error r = None \<and> list_data r = Some fl \<and>
          Threw \<in> set (fst (sign_all e clientId fl
                              (w1, tr @ [ListCall ''application-forms'' clientId 100 0]))) \<longrightarrow>
        error s' = Some ''Failed to load application forms'' \<and> files s' = files s)"
  using assms
  by (auto simp: loadFiles_def do_list_def Let_def split_beta bucket_def
        split: outcome.splits option.splits if_splits)


theorem loadFiles_failure_witness:
  "(fst (storage_list (const_env Threw Threw Threw Threw True ''t'') ''application-forms'' ''c1'' 100 0 ()) = Threw \<and>
    error (fst (loadFiles (const_env Threw Threw Threw Threw True ''t'') ''c1'' (old_state, ((), [])))) =
      Some ''Failed to load application forms'' \<and>
    files (fst (loadFiles (const_env Threw Threw Threw Threw True ''t'') ''c1'' (old_state, ((), [])))) =
      files old_state) \<and>
   (fst (storage_list (const_env (Returned \<lparr>list_data = None, list_error = Some ''offline''\<rparr>) Threw Threw Threw True ''t'')
           ''application-forms'' ''c1'' 100 0 ()) =
      Returned \<lparr>list_data = None, list_error = Some ''offline''\<rparr> \<and>
    list_error \<lparr>list_data = None, list_error = Some ''offline''\<rparr> = Some ''offline'' \<and>
    error (fst (loadFiles (const_env (Returned \<lparr>list_data = None, list_error = Some ''offline''\<rparr>) Threw Threw Threw True ''t'')
                  ''c1'' (old_state, ((), [])))) =
      Some (''Failed to load files: '' @ ''offline'') \<and>
    files (fst (loadFiles (const_env (Returned \<lparr>list_data = None, list_error = Some ''offline''\<rparr>) Threw Threw Threw True ''t'')
                  ''c1'' (old_state, ((), [])))) =
      files old_state) \<and>
   (storage_list (const_env (Returned \<lparr>list_data = Some [bare_entry], list_error = None\<rparr>) Threw Threw Threw True ''t'')
           ''application-forms'' ''c1'' 100 0 () =
      (Returned \<lparr>list_data = Some [bare_entry], list_error = None\<rparr>, ()) \<and>
    list_error \<lparr>list_data = Some [bare_entry], list_error = None\<rparr> = None \<and>
    list_data \<lparr>list_data = Some [bare_entry], list_error = None\<rparr> = Some [bare_entry] \<and>
    Threw \<in> set (fst (sign_all (const_env (Returned \<lparr>list_data = Some [bare_entry], list_error = None\<rparr>) Threw Threw Threw True ''t'')
                         ''c1'' [bare_entry] ((), [] @ [ListCall ''application-forms'' ''c1'' 100 0]))) \<and>
    error (fst (loadFiles (const_env (Returned \<lparr>list_data = Some [bare_entry], list_error = None\<rparr>) Threw Threw Threw True ''t'')
                  ''c1'' (old_state, ((), [])))) =
      Some ''Failed to load application forms'' \<and>
    files (fst (loadFiles (const_env (Returned \<lparr>list_data = Some [bare_entry], list_error = None\<rparr>) Threw Threw Threw True ''t'')
                  ''c1'' (old_state, ((), [])))) =
      files old_state)"
proof -
  let ?e1 = "const_env Threw Threw Threw Threw True ''t''"
  let ?r2 = "\<lparr>list_data = None, list_error = Some ''offline''\<rparr>"
  let ?e2 = "const_env (Returned ?r2) Threw Threw Threw True ''t''"
  let ?r3 = "\<lparr>list_data = Some [bare_entry], list_error = None\<rparr>"
  let ?e3 = "const_env (Returned ?r3) Threw Threw Threw True ''t''"
  have h1: "fst (storage_list ?e1 ''application-forms'' ''c1'' 100 0 ()) = Threw"
    by (simp add: const_env_def)
  have h2: "fst (storage_list ?e2 ''application-forms'' ''c1'' 100 0 ()) = Returned ?r2 \<and>
            list_error ?r2 = Some ''offline''"
    by (simp add: const_env_def)
  have h3: "storage_list ?e3 ''application-forms'' ''c1'' 100 0 () = (Returned ?r3, ()) \<and>
            list_error ?r3 = None \<and> list_data ?r3 = Some [bare_entry] \<and>
            Threw \<in> set (fst (sign_all ?e3 ''c1'' [bare_entry]
                                ((), [] @ [ListCall ''application-forms'' ''c1'' 100 0])))"
    by (simp add: const_env_def do_sign_def)
  have c1: "error (fst (loadFiles ?e1 ''c1'' (old_state, ((), [])))) =
              Some ''Failed to load application forms'' \<and>
            files (fst (loadFiles ?e1 ''c1'' (old_state, ((), [])))) = files old_state"
    using h1 loadFiles_failure [OF surjective_pairing, where e = ?e1 and clientId = "''c1''"
            and s = old_state and w = "()" and tr = "[]"]
    by simp
  have c2: "error (fst (loadFiles ?e2 ''c1'' (old_state, ((), [])))) =
              Some (''Failed to load files: '' @ ''offline'') \<and>
            files (fst (loadFiles ?e2 ''c1'' (old_state, ((), [])))) = files old_state"
    using h2 loadFiles_failure [OF surjective_pairing, where e = ?e2 and clientId = "''c1''"
            and s = old_state and w = "()" and tr = "[]"]
    by blast
  have c3: "error (fst (loadFiles ?e3 ''c1'' (old_state, ((), [])))) =
              Some ''Failed to load application forms'' \<and>
            files (fst (loadFiles ?e3 ''c1'' (old_state, ((), [])))) = files old_state"
    using h3 loadFiles_failure [OF surjective_pairing, where e = ?e3 and clientId = "''c1''"
            and s = old_state and w = "()" and tr = "[]"]
    by blast
  from h1 h2 h3 c1 c2 c3 show ?thesis
    by blast
qed


section \<open>The derived object name\<close>

lemma js_split_nonempty: "js_split sep s \<noteq> []"
  by (induction s) (auto split: list.splits)

lemma js_split_hd: "hd (js_split sep s) = takeWhile (\<lambda>c. c \<noteq> sep) s"
  by (induction s) (auto split: list.splits simp: js_split_nonempty)

lemma js_split_no_sep: "sep \<notin> set s \<Longrightarrow> js_split sep s = [s]"
  by (induction s) (auto split: list.splits)

lemma js_split_sep: "sep \<in> set s \<Longrightarrow> 2 \<le> length (js_split sep s)"
  by (induction s) (auto split: list.splits simp: js_split_nonempty js_split_no_sep)

lemma js_split_last: "last (js_split sep s) = rev (takeWhile (\<lambda>c. c \<noteq> sep) (rev s))"
proof (induction s)
  case Nil
  then show ?case by simp
next
  case (Cons c cs)
  show ?case
  proof (cases "sep \<in> set cs")
    case True
    then have "2 \<le> length (js_split sep cs)" by (rule js_split_sep)
    then obtain x y ys where "js_split sep cs = x # y # ys"
      by (cases "js_split sep cs"; cases "tl (js_split sep cs)") auto
    with Cons True show ?thesis
      by (auto simp: takeWhile_append1)
  next
    case False
    then have "takeWhile (\<lambda>c. c \<noteq> sep) (rev cs @ [c]) = rev cs @ takeWhile (\<lambda>c. c \<noteq> sep) [c]"
      by (intro takeWhile_append2) auto
    with False show ?thesis
      by (auto simp: js_split_no_sep)
  qed
qed

lemma fileName_pieces:
  "fileName isoString n =
     takeWhile (\<lambda>c. c \<noteq> CHR ''.'') n @ ''_'' @ replace_colon_dot isoString @ ''.'' @
     rev (takeWhile (\<lambda>c. c \<noteq> CHR ''.'') (rev n))"
  by (simp add: fileName_def fileExtension_def js_split_hd js_split_last)

lemma replace_colon_dot_sample: "replace_colon_dot ''2025-01-01T00:00:00.000Z'' = ''2025-01-01T00-00-00-000Z''"
  by (simp add: replace_colon_dot_def)

lemma pdf_allowed: "''application/pdf'' \<in> set allowedTypes"
  by (simp add: allowedTypes_def)

text \<open>
  C9. In the derived object name the base is the part of the file name before its first
  dot and the extension is the part after its last dot. So the inner pieces of a name
  with several dots are dropped (\<^verbatim>\<open>a.b.pdf\<close> becomes \<^verbatim>\<open>a_<timestamp>.pdf\<close>), and a name
  without a dot appears twice (\<^verbatim>\<open>README\<close> becomes \<^verbatim>\<open>README_<timestamp>.README\<close>). The
  upload request of a file that passes validation carries this name under the client's
  folder.
\<close>

theorem fileName_first_and_last_piece:
  "fileName isoString n =
     takeWhile (\<lambda>c. c \<noteq> CHR ''.'') n @ ''_'' @ replace_colon_dot isoString @ ''.'' @
     rev (takeWhile (\<lambda>c. c \<noteq> CHR ''.'') (rev n)) \<and>
   fileName isoString ''a.b.pdf'' = ''a_'' @ replace_colon_dot isoString @ ''.pdf'' \<and>
   fileName isoString ''README'' = ''README_'' @ replace_colon_dot isoString @ ''.README'' \<and>
   (file_type f \<in> set allowedTypes \<and> file_size f \<le> 52428800 \<longrightarrow>
      (\<exists>rest. snd (snd (handleFileUpload e clientId (Some f) (s, W))) =
         snd W @ UploadCall ''application-forms''
           (clientId @ ''/'' @ takeWhile (\<lambda>c. c \<noteq> CHR ''.'') (file_name f) @ ''_'' @
              replace_colon_dot (now_iso e (fst W)) @ ''.'' @
              rev (takeWhile (\<lambda>c. c \<noteq> CHR ''.'') (rev (file_name f))))
           f ''3600'' False # rest))"
proof (intro conjI impI)
  show "fileName isoString n =
     takeWhile (\<lambda>c. c \<noteq> CHR ''.'') n @ ''_'' @ replace_colon_dot isoString @ ''.'' @
     rev (takeWhile (\<lambda>c. c \<noteq> CHR ''.'') (rev n))"
    by (rule fileName_pieces)
  show "fileName isoString ''a.b.pdf'' = ''a_'' @ replace_colon_dot isoString @ ''.pdf''"
    by (simp add: fileName_pieces)
  show "fileName isoString ''README'' = ''README_'' @ replace_colon_dot isoString @ ''.README''"
    by (simp add: fileName_pieces)
next
  assume "file_type f \<in> set allowedTypes \<and> file_size f \<le> 52428800"
  then have "file_type f \<in> set allowedTypes" "file_size f \<le> 52428800"
    by simp_all
  from upload_log_ext[OF this, of e clientId s W]
  show "\<exists>rest. snd (snd (handleFileUpload e clientId (Some f) (s, W))) =
         snd W @ UploadCall ''application-forms''
           (clientId @ ''/'' @ takeWhile (\<lambda>c. c \<noteq> CHR ''.'') (file_name f) @ ''_'' @
              replace_colon_dot (now_iso e (fst W)) @ ''.'' @
              rev (takeWhile (\<lambda>c. c \<noteq> CHR ''.'') (rev (file_name f))))
           f ''3600'' False # rest"
    unfolding bucket_def filePath_def fileName_pieces by blast
qed

theorem fileName_first_and_last_piece_witness:
  "file_type \<lparr>file_name = ''README'', file_type = ''text/plain'', file_size = 12\<rparr> \<in> set allowedTypes \<and>
   file_size \<lparr>file_name = ''README'', file_type = ''text/plain'', file_size = 12\<rparr> \<le> 52428800 \<and>
   (\<exists>rest. snd (snd (handleFileUpload uploaded_env ''c1''
        (Some \<lparr>file_name = ''README'', file_type = ''text/plain'', file_size = 12\<rparr>)
        (initial_state, ((), [])))) =
      UploadCall ''application-forms'' ''c1/README_2025-01-01T00-00-00-000Z.README''
        \<lparr>file_name = ''README'', file_type = ''text/plain'', file_size = 12\<rparr> ''3600'' False # rest)"
proof -
  let ?f = "\<lparr>file_name = ''README'', file_type = ''text/plain'', file_size = 12\<rparr>"
  have h: "file_type ?f \<in> set allowedTypes \<and> file_size ?f \<le> 52428800"
    by (simp add: allowedTypes_def)
  have t: "now_iso uploaded_env (fst ((), [] :: call list)) = ''2025-01-01T00:00:00.000Z''"
    by (simp add: uploaded_env_def const_env_def)
  have p: "''c1'' @ ''/'' @ takeWhile (\<lambda>c. c \<noteq> CHR ''.'') (file_name ?f) @ ''_'' @
              replace_colon_dot (now_iso uploaded_env (fst ((), [] :: call list))) @ ''.'' @
              rev (takeWhile (\<lambda>c. c \<noteq> CHR ''.'') (rev (file_name ?f))) =
           ''c1/README_2025-01-01T00-00-00-000Z.README''"
    unfolding t replace_colon_dot_sample by simp
  from fileName_first_and_last_piece
         [of "''t''" "''n''" ?f uploaded_env "''c1''" initial_state "((), [])",
          THEN conjunct2, THEN conjunct2, THEN conjunct2, THEN mp, OF h]
  have "\<exists>rest. snd (snd (handleFileUpload uploaded_env ''c1'' (Some ?f) (initial_state, ((), [])))) =
         snd ((), []) @ UploadCall ''application-forms''
           (''c1'' @ ''/'' @ takeWhile (\<lambda>c. c \<noteq> CHR ''.'') (file_name ?f) @ ''_'' @
              replace_colon_dot (now_iso uploaded_env (fst ((), [] :: call list))) @ ''.'' @
              rev (takeWhile (\<lambda>c. c \<noteq> CHR ''.'') (rev (file_name ?f))))
           ?f ''3600'' False # rest" .
  then have "\<exists>rest. snd (snd (handleFileUpload uploaded_env ''c1'' (Some ?f) (initial_state, ((), [])))) =
         UploadCall ''application-forms'' ''c1/README_2025-01-01T00-00-00-000Z.README''
           ?f ''3600'' False # rest"
    unfolding p by simp
  with h show ?thesis
    by blast
qed

text \<open>
  C3. Uploading \<^verbatim>\<open>report.pdf\<close> for client \<^verbatim>\<open>c1\<close> at 2025-01-01T00:00:00.000Z stores the
  object at \<^verbatim>\<open>c1/report_2025-01-01T00-00-00-000Z.pdf\<close>, the timestamp between base name
  and extension. For the name \<^verbatim>\<open>a.b.pdf\<close>, whose base name is \<^verbatim>\<open>a.b\<close>, the object is
  stored at \<^verbatim>\<open>c1/a_2025-01-01T00-00-00-000Z.pdf\<close>: the timestamp is not appended to the
  base name, a piece of which is lost.
\<close>

theorem multi_dot_name_loses_segment:
  "snd (snd (handleFileUpload uploaded_env ''c1''
       (Some \<lparr>file_name = ''a.b.pdf'', file_type = ''application/pdf'', file_size = 2097152\<rparr>)
       (initial_state, ((), [])))) =
     [UploadCall ''application-forms'' ''c1/a_2025-01-01T00-00-00-000Z.pdf''
        \<lparr>file_name = ''a.b.pdf'', file_type = ''application/pdf'', file_size = 2097152\<rparr>
        ''3600'' False,
      ListCall ''application-forms'' ''c1'' 100 0] \<and>
   ''c1/a_2025-01-01T00-00-00-000Z.pdf'' \<noteq> ''c1/a.b_2025-01-01T00-00-00-000Z.pdf'' \<and>
   snd (snd (handleFileUpload uploaded_env ''c1''
       (Some \<lparr>file_name = ''report.pdf'', file_type = ''application/pdf'', file_size = 2097152\<rparr>)
       (initial_state, ((), [])))) =
     [UploadCall ''application-forms'' ''c1/report_2025-01-01T00-00-00-000Z.pdf''
        \<lparr>file_name = ''report.pdf'', file_type = ''application/pdf'', file_size = 2097152\<rparr>
        ''3600'' False,
      ListCall ''application-forms'' ''c1'' 100 0]"
proof -
  have n': "filePath ''c1'' ''2025-01-01T00:00:00.000Z'' ''report.pdf'' = ''c1/report_2025-01-01T00-00-00-000Z.pdf''"
    by (simp add: filePath_def fileName_pieces replace_colon_dot_sample)
  have n: "filePath ''c1'' ''2025-01-01T00:00:00.000Z'' ''a.b.pdf'' = ''c1/a_2025-01-01T00-00-00-000Z.pdf''"
    by (simp add: filePath_def fileName_pieces replace_colon_dot_sample)
  have t: "now_iso uploaded_env () = ''2025-01-01T00:00:00.000Z''"
    by (simp add: uploaded_env_def const_env_def)
  have u: "storage_upload uploaded_env = (\<lambda>b p f cc ups w. (Returned None, w))"
    by (simp add: uploaded_env_def const_env_def)
  have l: "storage_list uploaded_env = (\<lambda>b folder l off w. (Returned \<lparr>list_data = None, list_error = None\<rparr>, w))"
    by (simp add: uploaded_env_def const_env_def)
  show ?thesis
    by (simp add: handleFileUpload_def loadFiles_def do_upload_def do_list_def Let_def
          pdf_allowed n n' t u l bucket_def)
qed

section \<open>Success and error messages\<close>






















section \<open>Uploads never overwrite\<close>

lemma not_upload_overwrite_disallowed:
  "(\<forall>c \<in> set cs. \<forall>b p f cc ups. c \<noteq> UploadCall b p f cc ups) \<Longrightarrow> list_all overwrite_disallowed cs"
proof (induction cs)
  case Nil
  then show ?case by simp
next
  case (Cons c cs)
  then show ?case by (cases c) auto
qed

lemma loadFiles_log_ok:
  assumes "list_all overwrite_disallowed (snd (snd sW))"
  shows "list_all overwrite_disallowed (snd (snd (loadFiles e clientId sW)))"
proof -
  from loadFiles_log_ext[of e clientId sW]
  obtain rest where r: "snd (snd (loadFiles e clientId sW)) = snd (snd sW) @ rest"
    and n: "\<forall>c \<in> set rest. \<forall>b p f cc ups. c \<noteq> UploadCall b p f cc ups"
    by (elim exE conjE)
  from n have "list_all overwrite_disallowed rest"
    by (rule not_upload_overwrite_disallowed)
  with assms show ?thesis
    unfolding r by simp
qed

lemma handleFileUpload_log_ok:
  assumes "list_all overwrite_disallowed (snd (snd sW))"
  shows "list_all overwrite_disallowed (snd (snd (handleFileUpload e clientId fopt sW)))"
proof (cases fopt)
  case None
  with assms show ?thesis by (simp add: handleFileUpload_def)
next
  case (Some f)
  show ?thesis
  proof (cases "file_type f \<notin> set allowedTypes \<or> 52428800 < file_size f")
    case True
    from upload_rejected[OF True, of e clientId "fst sW" "snd sW"] Some assms
    show ?thesis by simp
  next
    case False
    then have v: "file_type f \<in> set allowedTypes" "file_size f \<le> 52428800"
      by simp_all
    from upload_log_ext[OF v, of e clientId "fst sW" "snd sW"]
    obtain rest where
      r: "snd (snd (handleFileUpload e clientId (Some f) (fst sW, snd sW))) =
            snd (snd sW) @
            UploadCall bucket (filePath clientId (now_iso e (fst (snd sW))) (file_name f)) f
              ''3600'' False # rest"
      and n: "\<forall>c \<in> set rest. \<forall>b p f cc ups. c \<noteq> UploadCall b p f cc ups"
      by (elim exE conjE)
    from n have "list_all overwrite_disallowed rest"
      by (rule not_upload_overwrite_disallowed)
    with assms r Some show ?thesis
      by simp
  qed
qed

lemma handleFileDelete_log_ok:
  assumes "list_all overwrite_disallowed (snd (snd sW))"
  shows "list_all overwrite_disallowed (snd (snd (handleFileDelete e clientId path n sW)))"
proof -
  have 1: "list_all overwrite_disallowed (snd (snd (do_remove e [path] (snd sW))))"
    using assms by (simp add: do_remove_def split_beta)
  have 2: "list_all overwrite_disallowed
             (snd (snd (loadFiles e clientId (s, snd (do_remove e [path] (snd sW))))))" for s
    using loadFiles_log_ok[of "(s, snd (do_remove e [path] (snd sW)))" e clientId] 1 by simp
  show ?thesis
    using assms 1 2
    by (simp add: handleFileDelete_def Let_def split_beta split: outcome.splits option.splits)
qed

lemma handleFileDownload_log_ok:
  assumes "list_all overwrite_disallowed (snd (snd sW))"
  shows "list_all overwrite_disallowed (snd (snd (handleFileDownload e url n sW)))"
  using assms
  by (simp add: handleFileDownload_def do_download_def split_beta split: outcome.splits)

lemma step_log_ok:
  "list_all overwrite_disallowed (snd (snd sW)) \<Longrightarrow>
   list_all overwrite_disallowed (snd (snd (step e clientId ev sW)))"
  by (cases ev)
    (simp_all add: loadFiles_log_ok handleFileUpload_log_ok handleFileDelete_log_ok
       handleFileDownload_log_ok)

lemma run_log_ok:
  "list_all overwrite_disallowed (snd (snd sW)) \<Longrightarrow>
   list_all overwrite_disallowed (snd (snd (run e clientId evs sW)))"
  unfolding run_def
  by (induction evs arbitrary: sW) (simp_all add: step_log_ok)

lemma upload_collision:
  assumes u: "storage_upload e = store_upload"
    and v: "file_type f \<in> set allowedTypes" "file_size f \<le> 52428800"
    and g: "st (''application-forms'', filePath clientId (now_iso e st) (file_name f)) = Some g"
  shows "handleFileUpload e clientId (Some f) (s, (st, tr)) =
     (s\<lparr>uploading := False,
        error := Some ''Upload failed: The resource already exists'',
        success := None\<rparr>,
      (st, tr @ [UploadCall ''application-forms''
                   (filePath clientId (now_iso e st) (file_name f)) f ''3600'' False]))"
  using v g
  by (simp add: handleFileUpload_def do_upload_def u store_upload_def bucket_def Let_def)

text \<open>
  C7. Every upload request the component ever sends has \<^verbatim>\<open>upsert\<close> false. So, against
  a backend that honours it, an upload whose derived path already holds an object fails
  with the backend's error, shown as \<^verbatim>\<open>Upload failed: ...\<close>, and the stored object is
  not replaced.
\<close>

theorem uploads_never_overwrite:
  "list_all overwrite_disallowed (snd (snd (run e clientId evs (s, (w, []))))) \<and>
   (storage_upload e' = store_upload \<and> file_type f \<in> set allowedTypes \<and>
    file_size f \<le> 52428800 \<and>
    st (''application-forms'', filePath clientId' (now_iso e' st) (file_name f)) = Some g \<longrightarrow>
      handleFileUpload e' clientId' (Some f) (s', (st, tr)) =
        (s'\<lparr>uploading := False,
            error := Some ''Upload failed: The resource already exists'',
            success := None\<rparr>,
         (st, tr @ [UploadCall ''application-forms''
                      (filePath clientId' (now_iso e' st) (file_name f)) f ''3600'' False])))"
proof (intro conjI impI)
  show "list_all overwrite_disallowed (snd (snd (run e clientId evs (s, (w, [])))))"
    using run_log_ok[of "(s, (w, []))" e clientId evs] by simp
next
  assume "storage_upload e' = store_upload \<and> file_type f \<in> set allowedTypes \<and>
    file_size f \<le> 52428800 \<and>
    st (''application-forms'', filePath clientId' (now_iso e' st) (file_name f)) = Some g"
  then show "handleFileUpload e' clientId' (Some f) (s', (st, tr)) =
        (s'\<lparr>uploading := False,
            error := Some ''Upload failed: The resource already exists'',
            success := None\<rparr>,
         (st, tr @ [UploadCall ''application-forms''
                      (filePath clientId' (now_iso e' st) (file_name f)) f ''3600'' False]))"
    using upload_collision[of e' f st clientId' g s' tr] by simp
qed

theorem uploads_never_overwrite_witness:
  "storage_upload store_env = store_upload \<and>
   file_type report_pdf \<in> set allowedTypes \<and>
   file_size report_pdf \<le> 52428800 \<and>
   occupied_store (''application-forms'',
       filePath ''c1'' (now_iso store_env occupied_store) (file_name report_pdf)) =
     Some \<lparr>file_name = ''report.pdf'', file_type = ''application/pdf'', file_size = 5\<rparr> \<and>
   handleFileUpload store_env ''c1'' (Some report_pdf) (initial_state, (occupied_store, [])) =
     (initial_state\<lparr>uploading := False,
        error := Some ''Upload failed: The resource already exists'',
        success := None\<rparr>,
      (occupied_store,
       [] @ [UploadCall ''application-forms''
               (filePath ''c1'' (now_iso store_env occupied_store) (file_name report_pdf))
               report_pdf ''3600'' False]))"
proof -
  have n: "filePath ''c1'' (now_iso store_env occupied_store) (file_name report_pdf) =
      ''c1/report_2025-01-01T00-00-00-000Z.pdf''"
    by (simp add: store_env_def report_pdf_def filePath_def fileName_pieces
          replace_colon_dot_sample)
  have h: "storage_upload store_env = store_upload \<and>
      file_type report_pdf \<in> set allowedTypes \<and>
      file_size report_pdf \<le> 52428800 \<and>
      occupied_store (''application-forms'',
          filePath ''c1'' (now_iso store_env occupied_store) (file_name report_pdf)) =
        Some \<lparr>file_name = ''report.pdf'', file_type = ''application/pdf'', file_size = 5\<rparr>"
    unfolding n
    by (simp add: store_env_def report_pdf_def pdf_allowed occupied_store_def)
  from uploads_never_overwrite
         [where e' = store_env and f = report_pdf and st = occupied_store and clientId' = "''c1''"
            and g = "\<lparr>file_name = ''report.pdf'', file_type = ''application/pdf'', file_size = 5\<rparr>"
            and s' = initial_state and tr = "[]",
          THEN conjunct2, THEN mp, OF h] h
  show ?thesis by simp
qed

end
